theory Spec2Isabelle
  imports Complex_Main
begin

section \<open>The session controller of connected\_interface.js\<close>

text \<open>
  The class \<open>App\<close> of \<^verbatim>\<open>src/app/web/static/connected_interface.js\<close> owns two
  fields, \<open>sessionId\<close> and \<open>isProcessing\<close>, drives three elements of the page (the send
  button, the stop button, the status indicator) and calls its collaborators (chat
  manager, thinking manager, WebSocket manager) and \<open>fetch\<close>. The embedding passes the
  state explicitly; every call that leaves the class is appended to a log, in program
  order. An \<open>async\<close> method is split at each \<open>await\<close>: one function per stretch
  of code that runs without suspension, plus their composition for a call that no other
  handler interleaves with. The collaborators' methods, \<open>console\<close> and the page's
  elements are not in this file; their calls are taken to return normally.
\<close>

subsection \<open>JavaScript values\<close>

text \<open>
  The values the handlers see are results of \<open>JSON.parse\<close> (events, response bodies)
  plus \<open>undefined\<close> for a missing property. A number is the rational its binary64
  value is (a JSON literal beyond the binary64 range, which parses to an infinity, is not
  modelled). An object is the list of its own properties, each name once; its prototype is
  \<open>Object.prototype\<close>, an array's \<open>Array.prototype\<close>.
\<close>

datatype jsval =
    JUndefined
  | JNull
  | JBool bool
  | JNum rat
  | JStr string
  | JArr "jsval list"
  | JObj "(string \<times> jsval) list"

text \<open>The conversion to boolean that \<open>if (v)\<close> and \<open>!v\<close> and \<open>a && b\<close> apply.\<close>

fun truthy :: "jsval \<Rightarrow> bool" where
  "truthy JUndefined = False"
| "truthy JNull = False"
| "truthy (JBool b) = b"
| "truthy (JNum r) = (r \<noteq> 0)"
| "truthy (JStr s) = (s \<noteq> [])"
| "truthy (JArr xs) = True"
| "truthy (JObj kvs) = True"

text \<open>Reading a property of \<open>null\<close> or \<open>undefined\<close> throws a TypeError.\<close>

fun nullish :: "jsval \<Rightarrow> bool" where
  "nullish JUndefined = True"
| "nullish JNull = True"
| "nullish _ = False"

text \<open>
  \<open>member v p\<close> is \<open>v.p\<close> for a value \<open>v\<close> that is not nullish (the handlers check
  \<open>nullish\<close> first and throw): an object's own property or \<open>undefined\<close>, the
  \<open>length\<close> of an array or a string, \<open>undefined\<close> otherwise. The method \<open>map\<close>
  of an array is not a value of this model; the one place that calls it is modelled there.
\<close>

fun member :: "jsval \<Rightarrow> string \<Rightarrow> jsval" where
  "member (JObj kvs) p = (case map_of kvs p of Some v \<Rightarrow> v | None \<Rightarrow> JUndefined)"
| "member (JArr xs) p = (if p = ''length'' then JNum (of_nat (length xs)) else JUndefined)"
| "member (JStr s) p = (if p = ''length'' then JNum (of_nat (length s)) else JUndefined)"
| "member _ p = JUndefined"

text \<open>
  \<open>v > 0\<close>, with \<open>None\<close> when the comparison throws a TypeError. On a number it is
  the comparison; \<open>undefined\<close> converts to NaN and \<open>null\<close> to 0, a boolean to 0 or 1.
  An object is converted through its \<open>valueOf\<close> and then its \<open>toString\<close>: the
  inherited \<open>valueOf\<close> returns the object itself and an own property of that name is a
  JSON value, not callable, so \<open>valueOf\<close> never gives a primitive; the inherited
  \<open>toString\<close> gives a text that is no number (NaN, the comparison is false), and with an
  own \<open>toString\<close> property, not callable either, no method is left and the conversion
  throws. For a string or an array the conversion (reading the string as a number,
  joining the array's elements, which can throw on an element) is not modelled: the
  parameter \<open>coerce\<close> stands for its outcome.
\<close>

fun gt_zero :: "(jsval \<Rightarrow> bool option) \<Rightarrow> jsval \<Rightarrow> bool option" where
  "gt_zero coerce (JNum r) = Some (0 < r)"
| "gt_zero coerce (JBool b) = Some b"
| "gt_zero coerce JUndefined = Some False"
| "gt_zero coerce JNull = Some False"
| "gt_zero coerce (JObj kvs) = (if map_of kvs ''toString'' = None then Some False else None)"
| "gt_zero coerce v = coerce v"

text \<open>
  The test \<open>v && v.length > 0\<close> of lines 171, 176, 181 and 198; \<open>None\<close> when it
  throws.
\<close>

definition nonempty :: "(jsval \<Rightarrow> bool option) \<Rightarrow> jsval \<Rightarrow> bool option" where
  "nonempty coerce v = (if truthy v then gt_zero coerce (member v ''length'') else Some False)"

text \<open>
  The message of the TypeError for \<open>v.p\<close> with \<open>v\<close> nullish, in V8's wording (other
  engines word it differently; nothing below depends on the wording).
\<close>

definition nullish_read_message :: "jsval \<Rightarrow> string \<Rightarrow> string" where
  "nullish_read_message v p =
     ''Cannot read properties of '' @ (if v = JNull then ''null'' else ''undefined'')
       @ '' (reading '' @ [CHR 0x27] @ p @ [CHR 0x27] @ '')''"

definition not_a_function_message :: "string \<Rightarrow> string" where
  "not_a_function_message e = e @ '' is not a function''"

definition to_primitive_message :: string where
  "to_primitive_message = ''Cannot convert object to primitive value''"

subsection \<open>State and effects\<close>

text \<open>
  A request handed to \<open>fetch\<close>: \<open>CreateSession m\<close> is the POST to \<open>/api/chat\<close> with
  body \<open>JSON.stringify({ prompt: m })\<close> (line 119); \<open>StopSession id\<close> is the POST to
  \<open>/api/chat/${id}/stop\<close> (line 213).
\<close>

datatype request = CreateSession string | StopSession jsval

text \<open>The calls that leave the class, as the source names them.\<close>

datatype call =
    Fetch request
  | AddUserMessage string
  | is_AddSystemMessage: AddSystemMessage string
  | is_AddAIMessage: AddAIMessage jsval
  | Connect jsval
  | ClearThinking
  | is_AddThinkingSteps: AddThinkingSteps jsval
  | SetTimeout_loadWorkspaceFiles nat

text \<open>
  Console output, one constructor per call site (the literals of the source are Chinese
  text): line 108, 177, 182, 199, 221, and the two \<open>console.error\<close> calls of lines 144
  and 229 with the localized text and the error's message.
\<close>

datatype console_line =
    Log_busy
  | Log_terminal_output jsval
  | Log_system_logs jsval
  | Log_chat_logs jsval
  | Log_stopped
  | Error_line string string

text \<open>
  The fields of \<open>App\<close> and of the page. \<open>send_disabled\<close> and \<open>stop_disabled\<close> are the
  \<open>disabled\<close> properties of the elements \<open>send-btn\<close> and \<open>stop-btn\<close>, \<open>status_text\<close>
  the \<open>textContent\<close> of \<open>status-indicator\<close>; the page is taken to contain the three
  elements.
\<close>

record app =
  sessionId :: jsval
  isProcessing :: bool
  send_disabled :: bool
  stop_disabled :: bool
  status_text :: string
  calls :: "call list"
  console :: "console_line list"

definition emit :: "call \<Rightarrow> app \<Rightarrow> app" where
  "emit c s = s\<lparr>calls := calls s @ [c]\<rparr>"

definition print :: "console_line \<Rightarrow> app \<Rightarrow> app" where
  "print l s = s\<lparr>console := console s @ [l]\<rparr>"

text \<open>
  The constructor (lines 14 and 15). The page's initial button states and texts belong to
  the markup, not to this file; they are parameters.
\<close>

definition constructor :: "bool \<Rightarrow> bool \<Rightarrow> string \<Rightarrow> app" where
  "constructor send0 stop0 text0 =
     \<lparr>sessionId = JNull, isProcessing = False, send_disabled = send0,
      stop_disabled = stop0, status_text = text0, calls = [], console = []\<rparr>"

text \<open>What a promise settles to: a value, or an error with its \<open>message\<close>.\<close>

datatype 'a outcome = Resolved 'a | Rejected string

text \<open>The two properties of a \<open>Response\<close> the code reads.\<close>

record response =
  ok :: bool
  status :: nat

text \<open>The continuation a suspended handler leaves behind.\<close>

datatype pending = AwaitFetch string | AwaitJson string | AwaitStop

subsection \<open>handleSendMessage (lines 106 to 151)\<close>

text \<open>
  The localisation function \<open>t\<close> of \<open>i18n.js\<close> is a parameter of every handler that
  calls it: a key and the substitution parameters give the text.
\<close>

type_synonym i18n = "string \<Rightarrow> (string \<times> jsval) list \<Rightarrow> string"

text \<open>Lines 107 to 125: the guard, the entry effects, and the request being issued.\<close>

definition handleSendMessage_enter :: "i18n \<Rightarrow> string \<Rightarrow> app \<Rightarrow> app \<times> pending option" where
  "handleSendMessage_enter t message s =
     (if isProcessing s then (print Log_busy s, None)
      else (emit (Fetch (CreateSession message))
              (s\<lparr>isProcessing := True, send_disabled := True, stop_disabled := False,
                 status_text := t ''processing_request'' []\<rparr>),
            Some (AwaitFetch message)))"

text \<open>Lines 143 to 150: the catch block, given \<open>error.message\<close>.\<close>

definition handleSendMessage_catch :: "i18n \<Rightarrow> string \<Rightarrow> app \<Rightarrow> app" where
  "handleSendMessage_catch t m s =
     (emit (AddSystemMessage (t ''error_occurred'' [(''message'', JStr m)]))
        (print (Error_line (t ''send_message_error'' [(''message'', JStr m)]) m) s))
     \<lparr>isProcessing := False, send_disabled := False, stop_disabled := True,
      status_text := []\<rparr>"

text \<open>The text of line 128 (and 218): \<open>t('api_error', { status: response.status })\<close>.\<close>

definition api_error :: "i18n \<Rightarrow> response \<Rightarrow> string" where
  "api_error t r = t ''api_error'' [(''status'', JNum (of_nat (status r)))]"

text \<open>Lines 127 to 131, once \<open>fetch\<close> has settled, up to \<open>await response.json()\<close>.\<close>

definition handleSendMessage_fetched ::
  "i18n \<Rightarrow> string \<Rightarrow> response outcome \<Rightarrow> app \<Rightarrow> app \<times> pending option" where
  "handleSendMessage_fetched t message fetched s =
     (case fetched of
        Rejected m \<Rightarrow> (handleSendMessage_catch t m s, None)
      | Resolved r \<Rightarrow>
          if \<not> ok r then (handleSendMessage_catch t (api_error t r) s, None)
          else (s, Some (AwaitJson message)))"

text \<open>Lines 131 to 141, once \<open>response.json()\<close> has settled.\<close>

definition handleSendMessage_parsed :: "i18n \<Rightarrow> string \<Rightarrow> jsval outcome \<Rightarrow> app \<Rightarrow> app" where
  "handleSendMessage_parsed t message parsed s =
     (case parsed of
        Rejected m \<Rightarrow> handleSendMessage_catch t m s
      | Resolved data \<Rightarrow>
          if nullish data then handleSendMessage_catch t (nullish_read_message data ''session_id'') s
          else
            (let s1 = s\<lparr>sessionId := member data ''session_id''\<rparr>;
                 s2 = emit (AddUserMessage message) s1;
                 s3 = emit (Connect (sessionId s2)) s2
             in emit ClearThinking s3))"

text \<open>
  One whole call with no other handler running at its two suspension points. \<open>fetched\<close>
  is what \<open>fetch\<close> settles to and \<open>parsed\<close> what \<open>response.json()\<close> settles to (read
  only when the response is ok).
\<close>

definition handleSendMessage ::
  "i18n \<Rightarrow> string \<Rightarrow> response outcome \<Rightarrow> jsval outcome \<Rightarrow> app \<Rightarrow> app" where
  "handleSendMessage t message fetched parsed s =
     (case handleSendMessage_enter t message s of
        (s1, None) \<Rightarrow> s1
      | (s1, Some k) \<Rightarrow>
          (case handleSendMessage_fetched t message fetched s1 of
             (s2, None) \<Rightarrow> s2
           | (s2, Some k') \<Rightarrow> handleSendMessage_parsed t message parsed s2))"

subsection \<open>handleWebSocketMessage (lines 154 to 206)\<close>

text \<open>
  The handler is synchronous. It can throw: at its first property read when \<open>data\<close> is
  nullish; at each of the four tests \<open>v.length > 0\<close> when the conversion of the length
  throws; and at line 185 when \<open>data.system_logs\<close> passes the test of line 181 but is
  no array (a string, or an object with a \<open>length\<close>), so that \<open>map\<close> is no function.
  What was assigned and called before the throw stays, and the rest of the handler does not
  run; the result carries the state in both cases.
\<close>

datatype result = Returned (state_of: app) | Threw (thrown: string) (state_of: app)

text \<open>The next statement runs only when the one before it returned.\<close>

definition and_then :: "result \<Rightarrow> (app \<Rightarrow> result) \<Rightarrow> result" where
  "and_then r f = (case r of Returned s \<Rightarrow> f s | Threw m s \<Rightarrow> Threw m s)"

text \<open>Line 157.\<close>

definition terminal :: "jsval \<Rightarrow> bool" where
  "terminal st = (st = JStr ''completed'' \<or> st = JStr ''error'' \<or> st = JStr ''stopped'')"

text \<open>Lines 156 to 168.\<close>

definition status_section :: "jsval \<Rightarrow> app \<Rightarrow> app" where
  "status_section data s =
     (if truthy (member data ''status'') then
        (if terminal (member data ''status'') then
           (let s1 = s\<lparr>isProcessing := False, send_disabled := False, stop_disabled := True,
                       status_text := []\<rparr>
            in if truthy (member data ''result'') then emit (AddAIMessage (member data ''result'')) s1
               else s1)
         else s)
      else s)"

text \<open>Lines 171 to 173.\<close>

definition thinking_section :: "(jsval \<Rightarrow> bool option) \<Rightarrow> jsval \<Rightarrow> app \<Rightarrow> result" where
  "thinking_section coerce data s =
     (case nonempty coerce (member data ''thinking_steps'') of
        None \<Rightarrow> Threw to_primitive_message s
      | Some b \<Rightarrow>
          Returned (if b then emit (AddThinkingSteps (member data ''thinking_steps'')) s else s))"

text \<open>Lines 176 to 178.\<close>

definition terminal_section :: "(jsval \<Rightarrow> bool option) \<Rightarrow> jsval \<Rightarrow> app \<Rightarrow> result" where
  "terminal_section coerce data s =
     (case nonempty coerce (member data ''terminal_output'') of
        None \<Rightarrow> Threw to_primitive_message s
      | Some b \<Rightarrow>
          Returned (if b then print (Log_terminal_output (member data ''terminal_output'')) s
                    else s))"

text \<open>
  Lines 186 to 191: the object built for one log line. \<open>ts\<close> is the number that
  \<open>Date.now() / 1000\<close> evaluates to at that moment (a binary64 value; the division and
  its rounding are the engine's, not modelled).
\<close>

definition logStep :: "jsval \<Rightarrow> rat \<Rightarrow> jsval" where
  "logStep line ts =
     JObj [(''message'', line), (''type'', JStr ''system_log''), (''details'', JNull),
           (''timestamp'', JNum ts)]"

text \<open>
  Line 185: \<open>map\<close> calls the function once per element, in order; \<open>stamp i\<close> is the
  value of \<open>Date.now() / 1000\<close> at the call for the element of index \<open>i\<close>.
\<close>

fun logSteps :: "(nat \<Rightarrow> rat) \<Rightarrow> nat \<Rightarrow> jsval list \<Rightarrow> jsval list" where
  "logSteps stamp i [] = []"
| "logSteps stamp i (line # logs) = logStep line (stamp i) # logSteps stamp (Suc i) logs"

text \<open>Lines 181 to 195.\<close>

definition system_logs_section ::
  "(jsval \<Rightarrow> bool option) \<Rightarrow> (nat \<Rightarrow> rat) \<Rightarrow> jsval \<Rightarrow> app \<Rightarrow> result" where
  "system_logs_section coerce stamp data s =
     (case nonempty coerce (member data ''system_logs'') of
        None \<Rightarrow> Threw to_primitive_message s
      | Some b \<Rightarrow>
          if b then
            (let s1 = print (Log_system_logs (member data ''system_logs'')) s
             in case member data ''system_logs'' of
                  JArr logs \<Rightarrow> Returned (emit (AddThinkingSteps (JArr (logSteps stamp 0 logs))) s1)
                | _ \<Rightarrow> Threw (not_a_function_message ''data.system_logs.map'') s1)
          else Returned s)"

text \<open>Lines 198 to 200.\<close>

definition chat_logs_section :: "(jsval \<Rightarrow> bool option) \<Rightarrow> jsval \<Rightarrow> app \<Rightarrow> result" where
  "chat_logs_section coerce data s =
     (case nonempty coerce (member data ''chat_logs'') of
        None \<Rightarrow> Threw to_primitive_message s
      | Some b \<Rightarrow>
          Returned (if b then print (Log_chat_logs (member data ''chat_logs'')) s else s))"

text \<open>Lines 203 to 205.\<close>

definition refresh_section :: "jsval \<Rightarrow> app \<Rightarrow> app" where
  "refresh_section data s =
     (if member data ''status'' = JStr ''completed''
      then emit (SetTimeout_loadWorkspaceFiles 1000) s else s)"

definition handleWebSocketMessage ::
  "(jsval \<Rightarrow> bool option) \<Rightarrow> (nat \<Rightarrow> rat) \<Rightarrow> jsval \<Rightarrow> app \<Rightarrow> result" where
  "handleWebSocketMessage coerce stamp data s =
     (if nullish data then Threw (nullish_read_message data ''status'') s
      else
        and_then (thinking_section coerce data (status_section data s)) (\<lambda>s1.
        and_then (terminal_section coerce data s1) (\<lambda>s2.
        and_then (system_logs_section coerce stamp data s2) (\<lambda>s3.
        and_then (chat_logs_section coerce data s3) (\<lambda>s4.
        Returned (refresh_section data s4))))))"

subsection \<open>stopProcessing (lines 209 to 232) and the stop button (lines 50 to 54)\<close>

text \<open>Lines 210 to 215: the guard and the request being issued.\<close>

definition stopProcessing_enter :: "app \<Rightarrow> app \<times> pending option" where
  "stopProcessing_enter s =
     (if \<not> truthy (sessionId s) then (s, None)
      else (emit (Fetch (StopSession (sessionId s))) s, Some AwaitStop))"

text \<open>Lines 228 to 231: the catch block, given \<open>error.message\<close>.\<close>

definition stopProcessing_catch :: "i18n \<Rightarrow> string \<Rightarrow> app \<Rightarrow> app" where
  "stopProcessing_catch t m s =
     emit (AddSystemMessage (t ''error_occurred'' [(''message'', JStr m)]))
       (print (Error_line (t ''stop_processing_error'' [(''message'', JStr m)]) m) s)"

text \<open>Lines 217 to 231, once \<open>fetch\<close> has settled.\<close>

definition stopProcessing_settled :: "i18n \<Rightarrow> response outcome \<Rightarrow> app \<Rightarrow> app" where
  "stopProcessing_settled t fetched s =
     (case fetched of
        Rejected m \<Rightarrow> stopProcessing_catch t m s
      | Resolved r \<Rightarrow>
          if \<not> ok r then stopProcessing_catch t (api_error t r) s
          else
            (emit (AddSystemMessage (t ''processing_stopped'' [])) (print Log_stopped s))
            \<lparr>status_text := t ''processing_stopped'' [], send_disabled := False,
             stop_disabled := True, isProcessing := False\<rparr>)"

text \<open>One whole call with no other handler running at its suspension point.\<close>

definition stopProcessing :: "i18n \<Rightarrow> response outcome \<Rightarrow> app \<Rightarrow> app" where
  "stopProcessing t fetched s =
     (case stopProcessing_enter s of
        (s1, None) \<Rightarrow> s1
      | (s1, Some k) \<Rightarrow> stopProcessing_settled t fetched s1)"

text \<open>Lines 50 to 54: the click listener of the stop button, up to the suspension.\<close>

definition stop_click :: "app \<Rightarrow> app \<times> pending option" where
  "stop_click s =
     (if truthy (sessionId s) \<and> isProcessing s then stopProcessing_enter s else (s, None))"

subsection \<open>The controller as a transition system\<close>

text \<open>
  What the browser can deliver to the controller: a submission from the chat manager, a
  click on the stop button, a message from the WebSocket manager (with the time stamps
  of that dispatch), and the settling of a promise a suspended handler awaits. Handlers
  run to their next suspension without interleaving; between two of them anything can
  come. A settling that matches no suspended handler changes nothing.
\<close>

datatype input =
    Submit string
  | StopClick
  | Event "nat \<Rightarrow> rat" jsval
  | FetchSettled string "response outcome"
  | JsonSettled string "jsval outcome"
  | StopSettled "response outcome"

definition suspend :: "pending option \<Rightarrow> pending list" where
  "suspend k = (case k of None \<Rightarrow> [] | Some p \<Rightarrow> [p])"

fun step :: "i18n \<Rightarrow> (jsval \<Rightarrow> bool option) \<Rightarrow> input \<Rightarrow> app \<times> pending list \<Rightarrow> app \<times> pending list" where
  "step t coerce (Submit m) (a, ps) =
     (case handleSendMessage_enter t m a of (a', k) \<Rightarrow> (a', ps @ suspend k))"
| "step t coerce StopClick (a, ps) =
     (case stop_click a of (a', k) \<Rightarrow> (a', ps @ suspend k))"
| "step t coerce (Event stamp data) (a, ps) =
     (state_of (handleWebSocketMessage coerce stamp data a), ps)"
| "step t coerce (FetchSettled m fetched) (a, ps) =
     (if AwaitFetch m \<in> set ps then
        (case handleSendMessage_fetched t m fetched a of
           (a', k) \<Rightarrow> (a', remove1 (AwaitFetch m) ps @ suspend k))
      else (a, ps))"
| "step t coerce (JsonSettled m parsed) (a, ps) =
     (if AwaitJson m \<in> set ps then
        (handleSendMessage_parsed t m parsed a, remove1 (AwaitJson m) ps)
      else (a, ps))"
| "step t coerce (StopSettled fetched) (a, ps) =
     (if AwaitStop \<in> set ps then (stopProcessing_settled t fetched a, remove1 AwaitStop ps)
      else (a, ps))"

text \<open>
  The body of a successful create-session response is well formed when it is an object
  whose \<open>session_id\<close> is a string (the data model's \<open>Session.id\<close>). The backend is taken
  to answer so; every other input is unconstrained.
\<close>

fun well_formed :: "input \<Rightarrow> bool" where
  "well_formed (JsonSettled m (Resolved (JObj kvs))) =
     (case map_of kvs ''session_id'' of Some (JStr sid) \<Rightarrow> True | _ \<Rightarrow> False)"
| "well_formed (JsonSettled m (Resolved v)) = False"
| "well_formed _ = True"

text \<open>
  The states the controller can be in: the constructor's, and what any well-formed input
  makes of a reachable state. The texts \<open>t\<close> returns may change from one input to the
  next (the language selector of lines 72 to 77 changes them). The other listeners of
  \<open>bindEvents\<close>, \<open>init\<close>, \<open>loadWorkspaceFiles\<close> and \<open>handleFileClick\<close> neither read
  nor assign \<open>sessionId\<close> or \<open>isProcessing\<close> and settle no request of the handlers
  above; they are left out.
\<close>

inductive reachable :: "app \<times> pending list \<Rightarrow> bool" where
  start: "reachable (constructor send0 stop0 text0, [])"
| next_input: "reachable \<sigma> \<Longrightarrow> well_formed i \<Longrightarrow> reachable (step t coerce i \<sigma>)"

text \<open>A create-session request whose response has not been stored yet.\<close>

fun creating :: "pending \<Rightarrow> bool" where
  "creating (AwaitFetch m) = True"
| "creating (AwaitJson m) = True"
| "creating AwaitStop = False"

text \<open>
  The calls one dispatch of an event adds to the log: what the log holds after the
  handler, past what it held before.
\<close>

definition dispatch_calls ::
  "(jsval \<Rightarrow> bool option) \<Rightarrow> (nat \<Rightarrow> rat) \<Rightarrow> jsval \<Rightarrow> app \<Rightarrow> call list" where
  "dispatch_calls coerce stamp data s =
     drop (length (calls s)) (calls (state_of (handleWebSocketMessage coerce stamp data s)))"

subsection \<open>Stand-ins for evaluating the handlers on concrete inputs\<close>

text \<open>
  \<open>t_plain\<close> renders a key followed by the string parameters; \<open>never\<close> answers the
  unmodelled comparisons with false; \<open>stamp_at ts\<close> stamps every step of one dispatch
  with \<open>ts\<close>.
\<close>

fun t_param :: "string \<times> jsval \<Rightarrow> string" where
  "t_param (k, JStr v) = '':'' @ v"
| "t_param (k, v) = '':'' @ k"

definition t_plain :: i18n where
  "t_plain key params = key @ concat (map t_param params)"

definition never :: "jsval \<Rightarrow> bool option" where
  "never v = Some False"

definition stamp_at :: "rat \<Rightarrow> nat \<Rightarrow> rat" where
  "stamp_at ts i = ts"

text \<open>Two states of the controller: a session running, and a session finished.\<close>

definition active_example :: app where
  "active_example =
     \<lparr>sessionId = JStr ''s1'', isProcessing = True, send_disabled = True,
      stop_disabled = False, status_text = ''busy'', calls = [Connect (JStr ''s1'')],
      console = []\<rparr>"

definition idle_example :: app where
  "idle_example =
     \<lparr>sessionId = JStr ''s0'', isProcessing = False, send_disabled = False,
      stop_disabled = True, status_text = [], calls = [], console = []\<rparr>"




section \<open>Properties\<close>

subsection \<open>What each piece of code does to each field\<close>

lemma emit_fields [simp]:
  "sessionId (emit c s) = sessionId s"
  "isProcessing (emit c s) = isProcessing s"
  "send_disabled (emit c s) = send_disabled s"
  "stop_disabled (emit c s) = stop_disabled s"
  "status_text (emit c s) = status_text s"
  "console (emit c s) = console s"
  "calls (emit c s) = calls s @ [c]"
  by (simp_all add: emit_def)

lemma print_fields [simp]:
  "sessionId (print l s) = sessionId s"
  "isProcessing (print l s) = isProcessing s"
  "send_disabled (print l s) = send_disabled s"
  "stop_disabled (print l s) = stop_disabled s"
  "status_text (print l s) = status_text s"
  "calls (print l s) = calls s"
  "console (print l s) = console s @ [l]"
  by (simp_all add: print_def)

lemma terminal_truthy: "terminal st \<Longrightarrow> truthy st"
  by (auto simp add: terminal_def)

lemma member_nullish: "nullish v \<Longrightarrow> member v p = JUndefined"
  by (cases v) simp_all

lemma nonempty_simps [simp]:
  "nonempty coerce (JArr xs) = Some (xs \<noteq> [])"
  "nonempty coerce JUndefined = Some False"
  "nonempty coerce JNull = Some False"
  "nonempty coerce (JStr str) = Some (str \<noteq> [])"
  by (simp_all add: nonempty_def)

text \<open>The test \<open>v && v.length > 0\<close> can throw on an object only.\<close>

lemma nonempty_returns: "(\<forall>kvs. v \<noteq> JObj kvs) \<Longrightarrow> \<exists>b. nonempty coerce v = Some b"
  by (cases v) (auto simp add: nonempty_def)

lemma status_section_fields:
  "sessionId (status_section data s) = sessionId s"
  "console (status_section data s) = console s"
  "calls (status_section data s) = calls s @
     (if terminal (member data ''status'') \<and> truthy (member data ''result'')
      then [AddAIMessage (member data ''result'')] else [])"
  "isProcessing (status_section data s) = (isProcessing s \<and> \<not> terminal (member data ''status''))"
  "send_disabled (status_section data s) = (send_disabled s \<and> \<not> terminal (member data ''status''))"
  "stop_disabled (status_section data s) = (stop_disabled s \<or> terminal (member data ''status''))"
  "status_text (status_section data s) =
     (if terminal (member data ''status'') then [] else status_text s)"
  using terminal_truthy [of "member data ''status''"]
  by (auto simp add: status_section_def Let_def)

text \<open>
  A field that neither a call nor a console line changes is, after the handler, what the
  status section left.
\<close>

lemma and_then_frame:
  assumes "\<And>s. F (state_of (f s)) = F s"
  shows "F (state_of (and_then r f)) = F (state_of r)"
  using assms by (cases r) (simp_all add: and_then_def)

lemma sections_frame:
  assumes e: "\<And>c s. F (emit c s) = F s" and p: "\<And>l s. F (print l s) = F s"
  shows "F (state_of (thinking_section coerce data s)) = F s"
    and "F (state_of (terminal_section coerce data s)) = F s"
    and "F (state_of (system_logs_section coerce stamp data s)) = F s"
    and "F (state_of (chat_logs_section coerce data s)) = F s"
    and "F (refresh_section data s) = F s"
  by (simp_all add: thinking_section_def terminal_section_def system_logs_section_def
      chat_logs_section_def refresh_section_def Let_def e p split: option.splits jsval.splits)

lemma handleWebSocketMessage_frame:
  assumes e: "\<And>c s. F (emit c s) = F s" and p: "\<And>l s. F (print l s) = F s"
  shows "F (state_of (handleWebSocketMessage coerce stamp data s)) =
           (if nullish data then F s else F (status_section data s))"
proof -
  note fr = sections_frame [of F, OF e p]
  have 4: "F (state_of (and_then (chat_logs_section coerce data u)
              (\<lambda>s4. Returned (refresh_section data s4)))) = F u" for u
    by (simp add: and_then_frame [of F] fr)
  have 3: "F (state_of (and_then (system_logs_section coerce stamp data u) (\<lambda>s3.
              and_then (chat_logs_section coerce data s3)
              (\<lambda>s4. Returned (refresh_section data s4))))) = F u" for u
    by (simp add: and_then_frame [of F, OF 4] fr)
  have 2: "F (state_of (and_then (terminal_section coerce data u) (\<lambda>s2.
              and_then (system_logs_section coerce stamp data s2) (\<lambda>s3.
              and_then (chat_logs_section coerce data s3)
              (\<lambda>s4. Returned (refresh_section data s4)))))) = F u" for u
    by (simp add: and_then_frame [of F, OF 3] fr)
  have 1: "F (state_of (and_then (thinking_section coerce data u) (\<lambda>s1.
              and_then (terminal_section coerce data s1) (\<lambda>s2.
              and_then (system_logs_section coerce stamp data s2) (\<lambda>s3.
              and_then (chat_logs_section coerce data s3)
              (\<lambda>s4. Returned (refresh_section data s4))))))) = F u" for u
    by (simp add: and_then_frame [of F, OF 2] fr)
  show ?thesis
    by (simp add: handleWebSocketMessage_def 1)
qed

lemma handleWebSocketMessage_fields:
  "sessionId (state_of (handleWebSocketMessage coerce stamp data s)) = sessionId s"
  "isProcessing (state_of (handleWebSocketMessage coerce stamp data s))
     = (isProcessing s \<and> \<not> terminal (member data ''status''))"
  "send_disabled (state_of (handleWebSocketMessage coerce stamp data s))
     = (send_disabled s \<and> \<not> terminal (member data ''status''))"
  "stop_disabled (state_of (handleWebSocketMessage coerce stamp data s))
     = (stop_disabled s \<or> terminal (member data ''status''))"
  "status_text (state_of (handleWebSocketMessage coerce stamp data s))
     = (if terminal (member data ''status'') then [] else status_text s)"
proof -
  have nt: "nullish data \<Longrightarrow> \<not> terminal (member data ''status'')"
    by (simp add: member_nullish terminal_def)
  show "sessionId (state_of (handleWebSocketMessage coerce stamp data s)) = sessionId s"
    by (simp add: handleWebSocketMessage_frame [of sessionId] status_section_fields)
  show "isProcessing (state_of (handleWebSocketMessage coerce stamp data s))
     = (isProcessing s \<and> \<not> terminal (member data ''status''))"
    using nt by (simp add: handleWebSocketMessage_frame [of isProcessing] status_section_fields)
  show "send_disabled (state_of (handleWebSocketMessage coerce stamp data s))
     = (send_disabled s \<and> \<not> terminal (member data ''status''))"
    using nt by (simp add: handleWebSocketMessage_frame [of send_disabled] status_section_fields)
  show "stop_disabled (state_of (handleWebSocketMessage coerce stamp data s))
     = (stop_disabled s \<or> terminal (member data ''status''))"
    using nt by (simp add: handleWebSocketMessage_frame [of stop_disabled] status_section_fields)
  show "status_text (state_of (handleWebSocketMessage coerce stamp data s))
     = (if terminal (member data ''status'') then [] else status_text s)"
    using nt by (simp add: handleWebSocketMessage_frame [of status_text] status_section_fields)
qed

text \<open>The calls of one dispatch, read off the six sections.\<close>

lemma and_then_simps [simp]:
  "and_then (Returned s) f = f s"
  "and_then (Threw m s) f = Threw m s"
  by (simp_all add: and_then_def)

lemma handleWebSocketMessage_calls:
  "calls (state_of (handleWebSocketMessage coerce stamp data s)) = calls s @
     (if nullish data then []
      else
        (if terminal (member data ''status'') \<and> truthy (member data ''result'')
         then [AddAIMessage (member data ''result'')] else []) @
        (case nonempty coerce (member data ''thinking_steps'') of
           None \<Rightarrow> []
         | Some bt \<Rightarrow>
             (if bt then [AddThinkingSteps (member data ''thinking_steps'')] else []) @
             (case nonempty coerce (member data ''terminal_output'') of
                None \<Rightarrow> []
              | Some bo \<Rightarrow>
                  (case nonempty coerce (member data ''system_logs'') of
                     None \<Rightarrow> []
                   | Some bl \<Rightarrow>
                       (if bl \<and> (\<forall>logs. member data ''system_logs'' \<noteq> JArr logs) then []
                        else
                          (case member data ''system_logs'' of
                             JArr logs \<Rightarrow>
                               if logs \<noteq> []
                               then [AddThinkingSteps (JArr (logSteps stamp 0 logs))] else []
                           | _ \<Rightarrow> []) @
                          (case nonempty coerce (member data ''chat_logs'') of
                             None \<Rightarrow> []
                           | Some bc \<Rightarrow>
                               if member data ''status'' = JStr ''completed''
                               then [SetTimeout_loadWorkspaceFiles 1000] else []))))))"
proof -
  let ?R = "if member data ''status'' = JStr ''completed''
            then [SetTimeout_loadWorkspaceFiles 1000] else []"
  let ?C4 = "case nonempty coerce (member data ''chat_logs'') of
               None \<Rightarrow> [] | Some bc \<Rightarrow> ?R"
  let ?L = "case member data ''system_logs'' of
              JArr logs \<Rightarrow>
                if logs \<noteq> [] then [AddThinkingSteps (JArr (logSteps stamp 0 logs))] else []
            | _ \<Rightarrow> []"
  let ?C3 = "case nonempty coerce (member data ''system_logs'') of
               None \<Rightarrow> []
             | Some bl \<Rightarrow>
                 if bl \<and> (\<forall>logs. member data ''system_logs'' \<noteq> JArr logs) then []
                 else ?L @ ?C4"
  let ?C2 = "case nonempty coerce (member data ''terminal_output'') of
               None \<Rightarrow> [] | Some bo \<Rightarrow> ?C3"
  let ?C1 = "case nonempty coerce (member data ''thinking_steps'') of
               None \<Rightarrow> []
             | Some bt \<Rightarrow>
                 (if bt then [AddThinkingSteps (member data ''thinking_steps'')] else []) @ ?C2"
  let ?f4 = "\<lambda>s4. Returned (refresh_section data s4)"
  let ?f3 = "\<lambda>s3. and_then (chat_logs_section coerce data s3) ?f4"
  let ?f2 = "\<lambda>s2. and_then (system_logs_section coerce stamp data s2) ?f3"
  let ?f1 = "\<lambda>s1. and_then (terminal_section coerce data s1) ?f2"
  have 4: "calls (state_of (?f3 u)) = calls u @ ?C4" for u
    by (cases "nonempty coerce (member data ''chat_logs'')")
       (simp_all add: chat_logs_section_def refresh_section_def)
  have 3: "calls (state_of (?f2 u)) = calls u @ ?C3" for u
  proof (cases "nonempty coerce (member data ''system_logs'')")
    case None
    then show ?thesis by (simp add: system_logs_section_def)
  next
    case (Some bl)
    show ?thesis
    proof (cases "member data ''system_logs''")
      case (JArr logs)
      with Some 4 show ?thesis
        by (simp add: system_logs_section_def Let_def del: and_then_simps(1))
           (simp add: and_then_simps(1) 4)
    qed (use Some 4 in \<open>simp_all add: system_logs_section_def Let_def\<close>)
  qed
  have 2: "calls (state_of (?f1 u)) = calls u @ ?C2" for u
    using 3 by (cases "nonempty coerce (member data ''terminal_output'')")
       (simp_all add: terminal_section_def)
  have 1: "calls (state_of (and_then (thinking_section coerce data u) ?f1)) = calls u @ ?C1" for u
    using 2 by (cases "nonempty coerce (member data ''thinking_steps'')")
       (simp_all add: thinking_section_def)
  show ?thesis
    by (simp add: handleWebSocketMessage_def 1 status_section_fields)
qed

lemma dispatch_calls_eq:
  "dispatch_calls coerce stamp data s =
     (if nullish data then []
      else
        (if terminal (member data ''status'') \<and> truthy (member data ''result'')
         then [AddAIMessage (member data ''result'')] else []) @
        (case nonempty coerce (member data ''thinking_steps'') of
           None \<Rightarrow> []
         | Some bt \<Rightarrow>
             (if bt then [AddThinkingSteps (member data ''thinking_steps'')] else []) @
             (case nonempty coerce (member data ''terminal_output'') of
                None \<Rightarrow> []
              | Some bo \<Rightarrow>
                  (case nonempty coerce (member data ''system_logs'') of
                     None \<Rightarrow> []
                   | Some bl \<Rightarrow>
                       (if bl \<and> (\<forall>logs. member data ''system_logs'' \<noteq> JArr logs) then []
                        else
                          (case member data ''system_logs'' of
                             JArr logs \<Rightarrow>
                               if logs \<noteq> []
                               then [AddThinkingSteps (JArr (logSteps stamp 0 logs))] else []
                           | _ \<Rightarrow> []) @
                          (case nonempty coerce (member data ''chat_logs'') of
                             None \<Rightarrow> []
                           | Some bc \<Rightarrow>
                               if member data ''status'' = JStr ''completed''
                               then [SetTimeout_loadWorkspaceFiles 1000] else []))))))"
  unfolding dispatch_calls_def handleWebSocketMessage_calls by simp

lemma dispatch_calls_state: "dispatch_calls coerce stamp data u = dispatch_calls coerce stamp data v"
  by (simp only: dispatch_calls_eq)

lemma calls_dispatch:
  "calls (state_of (handleWebSocketMessage coerce stamp data s))
     = calls s @ dispatch_calls coerce stamp data s"
  by (simp add: dispatch_calls_def handleWebSocketMessage_calls)

lemma length_logSteps: "length (logSteps stamp i logs) = length logs"
  by (induction logs arbitrary: i) simp_all

lemma nth_logSteps:
  "n < length logs \<Longrightarrow> logSteps stamp i logs ! n = logStep (logs ! n) (stamp (i + n))"
proof (induction logs arbitrary: i n)
  case Nil
  then show ?case by simp
next
  case (Cons l logs)
  show ?case
  proof (cases n)
    case 0
    then show ?thesis by simp
  next
    case (Suc k)
    with Cons.prems have "k < length logs" by simp
    from Cons.IH [OF this, of "Suc i"] Suc show ?thesis by simp
  qed
qed

text \<open>What a dispatch adds to the log, around the one call whose content is stamped.\<close>

lemma dispatch_calls_parts:
  "dispatch_calls coerce stamp data u =
     (if nullish data then []
      else (if terminal (member data ''status'') \<and> truthy (member data ''result'')
            then [AddAIMessage (member data ''result'')] else []) @
           (if nonempty coerce (member data ''thinking_steps'') = Some True
            then [AddThinkingSteps (member data ''thinking_steps'')] else [])) @
     (if (\<not> nullish data \<and> nonempty coerce (member data ''thinking_steps'') \<noteq> None
           \<and> nonempty coerce (member data ''terminal_output'') \<noteq> None)
         \<and> (\<exists>logs. member data ''system_logs'' = JArr logs \<and> logs \<noteq> [])
      then [AddThinkingSteps (JArr (logSteps stamp 0
              (case member data ''system_logs'' of JArr l \<Rightarrow> l | _ \<Rightarrow> [])))]
      else []) @
     (if (\<not> nullish data \<and> nonempty coerce (member data ''thinking_steps'') \<noteq> None
           \<and> nonempty coerce (member data ''terminal_output'') \<noteq> None)
         \<and> nonempty coerce (member data ''system_logs'') \<noteq> None
         \<and> \<not> (nonempty coerce (member data ''system_logs'') = Some True
               \<and> (\<forall>logs. member data ''system_logs'' \<noteq> JArr logs))
         \<and> nonempty coerce (member data ''chat_logs'') \<noteq> None
         \<and> member data ''status'' = JStr ''completed''
      then [SetTimeout_loadWorkspaceFiles 1000] else [])"
proof (cases "nullish data")
  case True
  then show ?thesis by (simp add: dispatch_calls_eq)
next
  case nn: False
  let ?nts = "nonempty coerce (member data ''thinking_steps'')"
  let ?nto = "nonempty coerce (member data ''terminal_output'')"
  let ?nsl = "nonempty coerce (member data ''system_logs'')"
  let ?ncl = "nonempty coerce (member data ''chat_logs'')"
  show ?thesis
  proof (cases ?nts)
    case None
    with nn show ?thesis by (simp add: dispatch_calls_eq)
  next
    case ts: (Some bt)
    show ?thesis
    proof (cases ?nto)
      case None
      with nn ts show ?thesis by (simp add: dispatch_calls_eq)
    next
      case to: (Some bo)
      show ?thesis
      proof (cases "\<exists>logs. member data ''system_logs'' = JArr logs")
        case True
        then obtain logs where "member data ''system_logs'' = JArr logs" by blast
        with nn ts to show ?thesis
          by (cases ?ncl) (simp_all add: dispatch_calls_eq)
      next
        case False
        then have l: "(case member data ''system_logs'' of
                        JArr logs \<Rightarrow>
                          if logs \<noteq> []
                          then [AddThinkingSteps (JArr (logSteps stamp 0 logs))] else []
                      | _ \<Rightarrow> []) = []"
          by (cases "member data ''system_logs''") simp_all
        from False nn ts to l show ?thesis
          by (cases ?ncl; cases ?nsl) (simp_all add: dispatch_calls_eq)
      qed
    qed
  qed
qed

text \<open>What a dispatch adds to the log, around the one call whose content is stamped.\<close>

lemma dispatch_calls_shape:
  "\<exists>pre post logs b. (b \<longrightarrow> member data ''system_logs'' = JArr logs) \<and>
     (\<forall>stamp u. dispatch_calls coerce stamp data u
        = pre @ (if b then [AddThinkingSteps (JArr (logSteps stamp 0 logs))] else []) @ post)"
proof -
  let ?reach = "\<not> nullish data \<and> nonempty coerce (member data ''thinking_steps'') \<noteq> None
                 \<and> nonempty coerce (member data ''terminal_output'') \<noteq> None"
  let ?pre = "if nullish data then []
              else (if terminal (member data ''status'') \<and> truthy (member data ''result'')
                    then [AddAIMessage (member data ''result'')] else []) @
                   (if nonempty coerce (member data ''thinking_steps'') = Some True
                    then [AddThinkingSteps (member data ''thinking_steps'')] else [])"
  let ?b = "?reach \<and> (\<exists>logs. member data ''system_logs'' = JArr logs \<and> logs \<noteq> [])"
  let ?logs = "case member data ''system_logs'' of JArr l \<Rightarrow> l | _ \<Rightarrow> []"
  let ?post = "if ?reach \<and> nonempty coerce (member data ''system_logs'') \<noteq> None
                  \<and> \<not> (nonempty coerce (member data ''system_logs'') = Some True
                        \<and> (\<forall>logs. member data ''system_logs'' \<noteq> JArr logs))
                  \<and> nonempty coerce (member data ''chat_logs'') \<noteq> None
                  \<and> member data ''status'' = JStr ''completed''
               then [SetTimeout_loadWorkspaceFiles 1000] else []"
  have b: "?b \<longrightarrow> member data ''system_logs'' = JArr ?logs"
    by auto
  have eq: "dispatch_calls coerce stamp data u
        = ?pre @ (if ?b then [AddThinkingSteps (JArr (logSteps stamp 0 ?logs))] else []) @ ?post"
    for stamp u
    by (rule dispatch_calls_parts)
  show ?thesis
    by (rule exI [of _ ?pre], rule exI [of _ ?post], rule exI [of _ ?logs], rule exI [of _ ?b])
       (intro conjI allI b eq)
qed

lemma dispatch_calls_AI:
  "filter is_AddAIMessage (dispatch_calls coerce stamp data s) =
     (if \<not> nullish data \<and> terminal (member data ''status'') \<and> truthy (member data ''result'')
      then [AddAIMessage (member data ''result'')] else [])"
  by (simp add: dispatch_calls_parts)

subsection \<open>Auxiliary facts\<close>

lemma handleSendMessage_catch_fields:
  "sessionId (handleSendMessage_catch t m s) = sessionId s"
  "isProcessing (handleSendMessage_catch t m s) = False"
  "send_disabled (handleSendMessage_catch t m s) = False"
  "stop_disabled (handleSendMessage_catch t m s) = True"
  "status_text (handleSendMessage_catch t m s) = []"
  "calls (handleSendMessage_catch t m s) =
     calls s @ [AddSystemMessage (t ''error_occurred'' [(''message'', JStr m)])]"
  by (simp_all add: handleSendMessage_catch_def)

lemma stopProcessing_catch_fields:
  "sessionId (stopProcessing_catch t m s) = sessionId s"
  "isProcessing (stopProcessing_catch t m s) = isProcessing s"
  "send_disabled (stopProcessing_catch t m s) = send_disabled s"
  "stop_disabled (stopProcessing_catch t m s) = stop_disabled s"
  "status_text (stopProcessing_catch t m s) = status_text s"
  "calls (stopProcessing_catch t m s) =
     calls s @ [AddSystemMessage (t ''error_occurred'' [(''message'', JStr m)])]"
  by (simp_all add: stopProcessing_catch_def)

lemma creating_remove1:
  "creating p \<Longrightarrow> p \<in> set ps \<Longrightarrow> \<not> creating q \<Longrightarrow> p \<in> set (remove1 q ps)"
  by (cases "p = q") simp_all

lemma handleSendMessage_parsed_well_formed:
  assumes "well_formed (JsonSettled m parsed)"
  shows "\<not> isProcessing (handleSendMessage_parsed t m parsed a)
       \<or> sessionId (handleSendMessage_parsed t m parsed a) \<noteq> JNull"
proof (cases parsed)
  case (Rejected e)
  then show ?thesis
    by (simp add: handleSendMessage_parsed_def handleSendMessage_catch_fields)
next
  case (Resolved data)
  with assms obtain kvs sid where "data = JObj kvs" "map_of kvs ''session_id'' = Some (JStr sid)"
    by (cases data) (auto split: option.splits jsval.splits)
  with Resolved show ?thesis
    by (simp add: handleSendMessage_parsed_def Let_def)
qed

lemma step_invariant:
  assumes inv: "isProcessing a \<longrightarrow> sessionId a \<noteq> JNull \<or> (\<exists>p\<in>set ps. creating p)"
    and wf: "well_formed i"
    and st: "step t coerce i (a, ps) = (a', ps')"
    and act: "isProcessing a'"
  shows "sessionId a' \<noteq> JNull \<or> (\<exists>p\<in>set ps'. creating p)"
proof (cases i)
  case (Submit m)
  with inv st act show ?thesis
    by (auto simp add: handleSendMessage_enter_def suspend_def split: if_splits)
next
  case StopClick
  with inv st act show ?thesis
    by (auto simp add: stop_click_def stopProcessing_enter_def suspend_def split: if_splits)
next
  case (Event stamp data)
  with inv st act show ?thesis
    by (auto simp add: handleWebSocketMessage_fields)
next
  case (FetchSettled m fetched)
  with inv st act show ?thesis
    by (auto simp add: handleSendMessage_fetched_def handleSendMessage_catch_fields suspend_def
        split: if_splits outcome.splits)
next
  case (JsonSettled m parsed)
  with wf have "\<not> isProcessing (handleSendMessage_parsed t m parsed a)
       \<or> sessionId (handleSendMessage_parsed t m parsed a) \<noteq> JNull"
    using handleSendMessage_parsed_well_formed by blast
  with JsonSettled inv st act show ?thesis
    by (auto split: if_splits)
next
  case (StopSettled fetched)
  show ?thesis
  proof (cases "AwaitStop \<in> set ps")
    case False
    with StopSettled inv st act show ?thesis by auto
  next
    case True
    with StopSettled st have a': "a' = stopProcessing_settled t fetched a"
      and ps': "ps' = remove1 AwaitStop ps" by auto
    from a' act have "isProcessing a" and "sessionId a' = sessionId a"
      by (auto simp add: stopProcessing_settled_def stopProcessing_catch_fields
          split: outcome.splits if_splits)
    with inv ps' show ?thesis
      using creating_remove1 [of _ ps AwaitStop] by auto
  qed
qed



subsection \<open>Submission\<close>

text \<open>
  The state the specification's invariant excludes is reached by the first submission:
  the constructor leaves \<open>sessionId\<close> null, line 112 sets \<open>isProcessing\<close> before
  the request of line 119 is answered, and \<open>sessionId\<close> is assigned only at line 132.
\<close>

theorem active_without_session_counterexample:
  "reachable (step t_plain never (Submit ''hello'') (constructor False True [], []))
   \<and> isProcessing (fst (step t_plain never (Submit ''hello'') (constructor False True [], [])))
   \<and> sessionId (fst (step t_plain never (Submit ''hello'') (constructor False True [], []))) = JNull"
proof -
  have "reachable (constructor False True [], [])"
    by (rule reachable.start)
  then have "reachable (step t_plain never (Submit ''hello'') (constructor False True [], []))"
    by (rule reachable.next_input) simp
  then show ?thesis
    by (simp add: handleSendMessage_enter_def constructor_def suspend_def)
qed

text \<open>
  C1, as the code has it. In every state the controller can reach (the backend answering
  a successful create-session request with a string \<open>session_id\<close>), when
  \<open>isProcessing\<close> is true either \<open>sessionId\<close> is not null or a create-session request
  of \<open>handleSendMessage\<close> is still outstanding (issued, its response not yet stored or
  rejected).
\<close>

theorem active_has_session_or_request:
  assumes "reachable \<sigma>" and "isProcessing (fst \<sigma>)"
  shows "sessionId (fst \<sigma>) \<noteq> JNull \<or> (\<exists>p\<in>set (snd \<sigma>). creating p)"
  using assms
proof (induction rule: reachable.induct)
  case (start send0 stop0 text0)
  then show ?case by (simp add: constructor_def)
next
  case (next_input \<sigma> i t coerce)
  obtain a ps where s: "\<sigma> = (a, ps)" by (cases \<sigma>)
  obtain a' ps' where s': "step t coerce i (a, ps) = (a', ps')" by (cases "step t coerce i (a, ps)")
  from next_input s s' show ?case
    using step_invariant [of a ps i t coerce a' ps'] by auto
qed

text \<open>
  The invariant at the state after one submission has been answered with session
  \<open>s1\<close>: reachable, processing, nothing outstanding, \<open>sessionId\<close> set.
\<close>

theorem active_has_session_or_request_witness:
  "reachable
     (step t_plain never (JsonSettled ''hello'' (Resolved (JObj [(''session_id'', JStr ''s1'')])))
       (step t_plain never (FetchSettled ''hello'' (Resolved \<lparr>ok = True, status = 200\<rparr>))
         (step t_plain never (Submit ''hello'') (constructor False True [], []))))
   \<and> step t_plain never (JsonSettled ''hello'' (Resolved (JObj [(''session_id'', JStr ''s1'')])))
       (step t_plain never (FetchSettled ''hello'' (Resolved \<lparr>ok = True, status = 200\<rparr>))
         (step t_plain never (Submit ''hello'') (constructor False True [], [])))
     = (\<lparr>sessionId = JStr ''s1'', isProcessing = True, send_disabled = True,
         stop_disabled = False, status_text = ''processing_request'',
         calls = [Fetch (CreateSession ''hello''), AddUserMessage ''hello'',
                  Connect (JStr ''s1''), ClearThinking],
         console = []\<rparr>, [])"
proof -
  let ?s1 = "step t_plain never (Submit ''hello'') (constructor False True [], [])"
  let ?s2 = "step t_plain never (FetchSettled ''hello'' (Resolved \<lparr>ok = True, status = 200\<rparr>)) ?s1"
  let ?s3 = "step t_plain never
               (JsonSettled ''hello'' (Resolved (JObj [(''session_id'', JStr ''s1'')]))) ?s2"
  have "reachable (constructor False True [], [])"
    by (rule reachable.start)
  then have "reachable ?s1"
    by (rule reachable.next_input) simp
  then have "reachable ?s2"
    by (rule reachable.next_input) simp
  then have r: "reachable ?s3"
    by (rule reachable.next_input) simp
  have e: "?s3 = (\<lparr>sessionId = JStr ''s1'', isProcessing = True, send_disabled = True,
      stop_disabled = False, status_text = ''processing_request'',
      calls = [Fetch (CreateSession ''hello''), AddUserMessage ''hello'', Connect (JStr ''s1''),
               ClearThinking], console = []\<rparr>, [])"
    by (simp add: handleSendMessage_enter_def handleSendMessage_fetched_def
        handleSendMessage_parsed_def constructor_def suspend_def emit_def t_plain_def Let_def)
  from active_has_session_or_request [OF r] r e show ?thesis
    by simp
qed

text \<open>
  C2. A call of \<open>handleSendMessage\<close> while \<open>isProcessing\<close> is true suspends
  nowhere (so issues no request), adds no call to the log (no \<open>fetch\<close>, no
  collaborator), and leaves \<open>sessionId\<close>, \<open>isProcessing\<close>, both buttons and the
  status indicator as they were, whatever the message and whatever the backend would have
  answered. Its one trace is the console line of line 108.
\<close>

theorem submit_while_active:
  assumes "isProcessing s"
  shows "snd (handleSendMessage_enter t message s) = None
       \<and> calls (handleSendMessage t message fetched parsed s) = calls s
       \<and> sessionId (handleSendMessage t message fetched parsed s) = sessionId s
       \<and> isProcessing (handleSendMessage t message fetched parsed s) = isProcessing s
       \<and> send_disabled (handleSendMessage t message fetched parsed s) = send_disabled s
       \<and> stop_disabled (handleSendMessage t message fetched parsed s) = stop_disabled s
       \<and> status_text (handleSendMessage t message fetched parsed s) = status_text s
       \<and> console (handleSendMessage t message fetched parsed s) = console s @ [Log_busy]"
  using assms by (simp add: handleSendMessage_def handleSendMessage_enter_def)

text \<open>
  The guard at a running session: the state comes back with one more console line.
\<close>

theorem submit_while_active_witness:
  "isProcessing active_example
   \<and> handleSendMessage_enter t_plain ''again'' active_example
     = (active_example\<lparr>console := [Log_busy]\<rparr>, None)
   \<and> handleSendMessage t_plain ''again'' (Resolved \<lparr>ok = True, status = 200\<rparr>)
        (Resolved (JObj [(''session_id'', JStr ''s2'')])) active_example
     = active_example\<lparr>console := [Log_busy]\<rparr>"
  using submit_while_active [of active_example t_plain "''again''"
      "Resolved \<lparr>ok = True, status = 200\<rparr>" "Resolved (JObj [(''session_id'', JStr ''s2'')])"]
  by (simp add: active_example_def print_def handleSendMessage_def handleSendMessage_enter_def)






subsection \<open>Event dispatch\<close>

text \<open>
  C5. An event whose \<open>status\<close> is \<open>completed\<close>, \<open>error\<close> or \<open>stopped\<close>
  leaves the controller idle, the send button enabled, the stop button disabled and the
  status indicator empty, from every state and whatever else the event carries (also when
  the handler throws at line 185).
\<close>

theorem terminal_status_event:
  assumes "member data ''status'' = JStr st"
    and "st = ''completed'' \<or> st = ''error'' \<or> st = ''stopped''"
  shows "\<not> isProcessing (state_of (handleWebSocketMessage coerce stamp data s))
       \<and> \<not> send_disabled (state_of (handleWebSocketMessage coerce stamp data s))
       \<and> stop_disabled (state_of (handleWebSocketMessage coerce stamp data s))
       \<and> status_text (state_of (handleWebSocketMessage coerce stamp data s)) = []"
proof -
  from assms have "terminal (member data ''status'')"
    by (auto simp add: terminal_def)
  then show ?thesis
    by (simp add: handleWebSocketMessage_fields)
qed

text \<open>
  A \<open>stopped\<close> event arriving at a running session.
\<close>

theorem terminal_status_event_witness:
  "\<not> isProcessing (state_of (handleWebSocketMessage never (stamp_at 0)
        (JObj [(''status'', JStr ''stopped'')]) active_example))
   \<and> \<not> send_disabled (state_of (handleWebSocketMessage never (stamp_at 0)
        (JObj [(''status'', JStr ''stopped'')]) active_example))
   \<and> stop_disabled (state_of (handleWebSocketMessage never (stamp_at 0)
        (JObj [(''status'', JStr ''stopped'')]) active_example))
   \<and> status_text (state_of (handleWebSocketMessage never (stamp_at 0)
        (JObj [(''status'', JStr ''stopped'')]) active_example)) = []
   \<and> isProcessing active_example"
  using terminal_status_event [of "JObj [(''status'', JStr ''stopped'')]" "''stopped''"
      never "stamp_at 0" active_example]
  by (simp add: active_example_def)

text \<open>
  The test of line 164 is on the truth value of \<open>data.result\<close>: a completed event
  whose \<open>result\<close> is present and is the empty string adds no AI message (the one call
  is the timer of line 204).
\<close>

theorem completed_result_counterexample:
  "member (JObj [(''status'', JStr ''completed''), (''result'', JStr [])]) ''status''
      = JStr ''completed''
   \<and> member (JObj [(''status'', JStr ''completed''), (''result'', JStr [])]) ''result'' = JStr []
   \<and> dispatch_calls never (stamp_at 0)
        (JObj [(''status'', JStr ''completed''), (''result'', JStr [])]) active_example
      = [SetTimeout_loadWorkspaceFiles 1000]"
  by (simp add: dispatch_calls_eq terminal_def)

text \<open>
  C6, as the code has it. An event with \<open>status\<close> \<open>completed\<close> whose
  \<open>result\<close> is truthy (present, and not the empty string, 0, false or null) adds
  exactly one \<open>addAIMessage\<close> call, with that result.
\<close>

theorem completed_result_forwarded:
  assumes "member data ''status'' = JStr ''completed''"
    and "truthy (member data ''result'')"
  shows "filter is_AddAIMessage (dispatch_calls coerce stamp data s)
           = [AddAIMessage (member data ''result'')]"
proof -
  from assms(1) have "\<not> nullish data" by (cases data) simp_all
  with assms show ?thesis
    by (simp add: dispatch_calls_AI terminal_def)
qed

text \<open>
  Scenario C of the specification: \<open>completed\<close> with result \<open>done\<close>.
\<close>

theorem completed_result_forwarded_witness:
  "filter is_AddAIMessage (dispatch_calls never (stamp_at 0)
      (JObj [(''status'', JStr ''completed''), (''result'', JStr ''done'')]) active_example)
    = [AddAIMessage (JStr ''done'')]
   \<and> dispatch_calls never (stamp_at 0)
      (JObj [(''status'', JStr ''completed''), (''result'', JStr ''done'')]) active_example
    = [AddAIMessage (JStr ''done''), SetTimeout_loadWorkspaceFiles 1000]"
  using completed_result_forwarded [of
      "JObj [(''status'', JStr ''completed''), (''result'', JStr ''done'')]" never "stamp_at 0"
      active_example]
  by (simp add: dispatch_calls_eq terminal_def)




text \<open>
  Two dispatches of the same event at different times (\<open>Date.now()\<close> 1000 and 2000, so
  that \<open>Date.now() / 1000\<close> is 1 and 2): line 190 stamps each step, and the second call
  differs from the first in it.
\<close>

theorem dispatch_twice_counterexample:
  "dispatch_calls never (stamp_at 2) (JObj [(''system_logs'', JArr [JStr ''a''])])
     (state_of (handleWebSocketMessage never (stamp_at 1)
        (JObj [(''system_logs'', JArr [JStr ''a''])]) idle_example))
   \<noteq> dispatch_calls never (stamp_at 1) (JObj [(''system_logs'', JArr [JStr ''a''])])
       idle_example"
  by (simp add: dispatch_calls_eq logStep_def stamp_at_def)

text \<open>
  C9, as the code has it. Two dispatches of the same event add to the log the calls of
  the first followed by the calls of the second. The calls of a dispatch do not depend on
  the state it starts from, so with the same time stamps the second dispatch repeats the
  calls of the first. With any time stamps the calls of a dispatch are a fixed list of
  calls, then at most one \<open>addThinkingSteps\<close> call for the array \<open>system_logs\<close>, then
  a fixed list of calls; the steps of that one call are the log lines in order, each with
  \<open>type\<close> \<open>system_log\<close>, \<open>details\<close> null and the time stamp of its dispatch. So two
  dispatches differ in nothing but the \<open>timestamp\<close> of the steps made from
  \<open>system_logs\<close>.
\<close>

theorem dispatch_twice:
  "calls (state_of (handleWebSocketMessage coerce stamp2 data
            (state_of (handleWebSocketMessage coerce stamp1 data s))))
     = calls s @ dispatch_calls coerce stamp1 data s
         @ dispatch_calls coerce stamp2 data (state_of (handleWebSocketMessage coerce stamp1 data s))
   \<and> dispatch_calls coerce stamp1 data (state_of (handleWebSocketMessage coerce stamp1 data s))
     = dispatch_calls coerce stamp1 data s
   \<and> (\<exists>pre post logs b. (b \<longrightarrow> member data ''system_logs'' = JArr logs) \<and>
        (\<forall>stamp u. dispatch_calls coerce stamp data u
           = pre @ (if b then [AddThinkingSteps (JArr (logSteps stamp 0 logs))] else []) @ post))
   \<and> (\<forall>stamp logs. length (logSteps stamp 0 logs) = length logs \<and>
        (\<forall>n<length logs. logSteps stamp 0 logs ! n
           = JObj [(''message'', logs ! n), (''type'', JStr ''system_log''), (''details'', JNull),
                   (''timestamp'', JNum (stamp n))]))"
proof -
  have a: "calls (state_of (handleWebSocketMessage coerce stamp2 data
            (state_of (handleWebSocketMessage coerce stamp1 data s))))
     = calls s @ dispatch_calls coerce stamp1 data s
         @ dispatch_calls coerce stamp2 data (state_of (handleWebSocketMessage coerce stamp1 data s))"
    by (simp add: calls_dispatch)
  have b: "dispatch_calls coerce stamp1 data (state_of (handleWebSocketMessage coerce stamp1 data s))
     = dispatch_calls coerce stamp1 data s"
    by (rule dispatch_calls_state)
  have c: "\<forall>stamp logs. length (logSteps stamp 0 logs) = length logs \<and>
        (\<forall>n<length logs. logSteps stamp 0 logs ! n
           = JObj [(''message'', logs ! n), (''type'', JStr ''system_log''), (''details'', JNull),
                   (''timestamp'', JNum (stamp n))])"
    by (simp add: length_logSteps nth_logSteps logStep_def)
  from a b c dispatch_calls_shape [of data coerce] show ?thesis
    by (intro conjI)
qed

text \<open>The event of the counterexample, dispatched at 1000 ms and again at 2000 ms.\<close>

theorem dispatch_twice_witness:
  "calls (state_of (handleWebSocketMessage never (stamp_at 2)
            (JObj [(''system_logs'', JArr [JStr ''a''])])
            (state_of (handleWebSocketMessage never (stamp_at 1)
               (JObj [(''system_logs'', JArr [JStr ''a''])]) idle_example))))
     = [AddThinkingSteps (JArr [JObj [(''message'', JStr ''a''), (''type'', JStr ''system_log''),
                                      (''details'', JNull), (''timestamp'', JNum 1)]]),
        AddThinkingSteps (JArr [JObj [(''message'', JStr ''a''), (''type'', JStr ''system_log''),
                                      (''details'', JNull), (''timestamp'', JNum 2)]])]
   \<and> dispatch_calls never (stamp_at 1) (JObj [(''system_logs'', JArr [JStr ''a''])])
       (state_of (handleWebSocketMessage never (stamp_at 1)
          (JObj [(''system_logs'', JArr [JStr ''a''])]) idle_example))
     = dispatch_calls never (stamp_at 1) (JObj [(''system_logs'', JArr [JStr ''a''])])
         idle_example"
  using dispatch_twice [of never "stamp_at 2" "JObj [(''system_logs'', JArr [JStr ''a''])]"
      "stamp_at 1" idle_example]
  by (simp add: dispatch_calls_eq logStep_def stamp_at_def idle_example_def)

text \<open>
  As for \<open>completed\<close>, the test of line 164 is on the truth value: an \<open>error\<close>
  event whose \<open>result\<close> is present and is the empty string makes no call at all.
\<close>

theorem terminal_result_counterexample:
  "member (JObj [(''status'', JStr ''error''), (''result'', JStr [])]) ''status'' = JStr ''error''
   \<and> member (JObj [(''status'', JStr ''error''), (''result'', JStr [])]) ''result'' = JStr []
   \<and> dispatch_calls never (stamp_at 0)
        (JObj [(''status'', JStr ''error''), (''result'', JStr [])]) active_example = []"
  by (simp add: dispatch_calls_eq terminal_def)

text \<open>
  C10, as the code has it. An event with \<open>status\<close> \<open>error\<close> or \<open>stopped\<close>
  whose \<open>result\<close> is truthy adds exactly one \<open>addAIMessage\<close> call, with that
  result: lines 164 to 166 sit inside the test of line 157 for all three terminal values.
\<close>

theorem terminal_result_forwarded:
  assumes "member data ''status'' = JStr ''error'' \<or> member data ''status'' = JStr ''stopped''"
    and "truthy (member data ''result'')"
  shows "filter is_AddAIMessage (dispatch_calls coerce stamp data s)
           = [AddAIMessage (member data ''result'')]"
proof -
  from assms(1) have "\<not> nullish data" by (cases data) auto
  with assms show ?thesis
    by (auto simp add: dispatch_calls_AI terminal_def)
qed

text \<open>
  An \<open>error\<close> event with result \<open>failed\<close>.
\<close>

theorem terminal_result_forwarded_witness:
  "filter is_AddAIMessage (dispatch_calls never (stamp_at 0)
      (JObj [(''status'', JStr ''error''), (''result'', JStr ''failed'')]) active_example)
    = [AddAIMessage (JStr ''failed'')]
   \<and> dispatch_calls never (stamp_at 0)
      (JObj [(''status'', JStr ''error''), (''result'', JStr ''failed'')]) active_example
    = [AddAIMessage (JStr ''failed'')]"
  using terminal_result_forwarded [of
      "JObj [(''status'', JStr ''error''), (''result'', JStr ''failed'')]" never "stamp_at 0"
      active_example]
  by (simp add: dispatch_calls_eq terminal_def)

subsection \<open>Cancellation\<close>

text \<open>
  C8. A call of \<open>stopProcessing\<close> with a truthy \<open>sessionId\<close> whose request fails
  (\<open>fetch\<close> rejects with message \<open>m\<close>, or the response is not ok and \<open>m\<close> is the
  \<open>api_error\<close> text with its status), not interleaved with another handler, leaves
  \<open>isProcessing\<close>, both buttons, the status indicator and \<open>sessionId\<close> as they
  were; after the request its one call is \<open>addSystemMessage\<close> with the
  \<open>error_occurred\<close> text built from \<open>m\<close>.
\<close>

theorem stop_failure:
  assumes "truthy (sessionId s)"
    and "fetched = Rejected m \<or> (\<exists>r. fetched = Resolved r \<and> \<not> ok r \<and> m = api_error t r)"
  shows "isProcessing (stopProcessing t fetched s) = isProcessing s
       \<and> send_disabled (stopProcessing t fetched s) = send_disabled s
       \<and> stop_disabled (stopProcessing t fetched s) = stop_disabled s
       \<and> status_text (stopProcessing t fetched s) = status_text s
       \<and> sessionId (stopProcessing t fetched s) = sessionId s
       \<and> calls (stopProcessing t fetched s)
           = calls s @ [Fetch (StopSession (sessionId s)),
                        AddSystemMessage (t ''error_occurred'' [(''message'', JStr m)])]"
  using assms
  by (auto simp add: stopProcessing_def stopProcessing_enter_def stopProcessing_settled_def
      stopProcessing_catch_fields)

text \<open>
  The stop request of a running session answered with status 500.
\<close>

theorem stop_failure_witness:
  "truthy (sessionId active_example)
   \<and> stopProcessing t_plain (Resolved \<lparr>ok = False, status = 500\<rparr>) active_example
     = active_example
        \<lparr>calls := [Connect (JStr ''s1''), Fetch (StopSession (JStr ''s1'')),
                   AddSystemMessage ''error_occurred:api_error:status''],
         console := [Error_line ''stop_processing_error:api_error:status'' ''api_error:status'']\<rparr>"
  using stop_failure [of active_example "Resolved \<lparr>ok = False, status = 500\<rparr>"
      "api_error t_plain \<lparr>ok = False, status = 500\<rparr>" t_plain]
  by (simp add: active_example_def stopProcessing_def stopProcessing_enter_def
      stopProcessing_settled_def stopProcessing_catch_def api_error_def t_plain_def emit_def
      print_def)

end
